theory Spec2Isabelle
  imports Main "HOL-Library.AList" "HOL-Library.Sublist"
begin

section \<open>JavaScript values and task objects\<close>

text \<open>
  The task store (the Pinia store \<open>useTaskStore\<close>) handles plain JSON objects that come
  back from the backend. A property value is a JavaScript primitive or a reference to some
  nested object. Numbers are the integer-valued ones (task ids and counters); \<open>NaN\<close> and
  fractions are outside the model. \<open>JRef a\<close> is a reference to a nested object or array at
  address \<open>a\<close>: the store only copies such a value, tests its truthiness or compares it.
\<close>

datatype jsval =
    JUndefined
  | JNull
  | JBool bool
  | JNum int
  | JStr string
  | JRef nat

text \<open>
  An object is the list of its own properties in insertion order; the first binding of a
  key is the property's value.
\<close>

type_synonym jsobj = "(string \<times> jsval) list"

text \<open>Property access \<open>obj.k\<close>: a missing property reads as \<open>undefined\<close>.\<close>

definition js_get :: "jsobj \<Rightarrow> string \<Rightarrow> jsval" where
  "js_get obj k = (case map_of obj k of None \<Rightarrow> JUndefined | Some v \<Rightarrow> v)"

text \<open>
  JavaScript truthiness, as used by \<open>||\<close>, \<open>!\<close> and the callbacks of \<open>Array.filter\<close>:
  \<open>undefined\<close>, \<open>null\<close>, \<open>false\<close>, \<open>0\<close> and the empty string are falsy.
\<close>

fun truthy :: "jsval \<Rightarrow> bool" where
  "truthy JUndefined = False"
| "truthy JNull = False"
| "truthy (JBool b) = b"
| "truthy (JNum n) = (n \<noteq> 0)"
| "truthy (JStr s) = (s \<noteq> [])"
| "truthy (JRef a) = True"

text \<open>The operator \<open>a || b\<close>: the left operand when it is truthy, else the right one.\<close>

definition js_or :: "jsval \<Rightarrow> jsval \<Rightarrow> jsval" where
  "js_or a b = (if truthy a then a else b)"

text \<open>The operator \<open>!a\<close>.\<close>

definition js_not :: "jsval \<Rightarrow> jsval" where
  "js_not a = JBool (\<not> truthy a)"

text \<open>
  Strict equality \<open>a === b\<close>. On the values of \<open>jsval\<close> (no \<open>NaN\<close>, references compared
  by address) it is equality of the values.
\<close>

definition strict_eq :: "jsval \<Rightarrow> jsval \<Rightarrow> bool" where
  "strict_eq a b = (a = b)"

text \<open>
  The object literal \<open>{ ...task, id: task.id || task._id }\<close>, written inline in
  \<open>fetchTasks\<close>, \<open>createTask\<close> and \<open>updateTask\<close>: the spread copies every own property of
  \<open>task\<close>, then \<open>id\<close> is written (overwriting the copied \<open>id\<close> in place, or added last).
\<close>

definition normalize_id :: "jsobj \<Rightarrow> jsobj" where
  "normalize_id task = AList.update ''id'' (js_or (js_get task ''id'') (js_get task ''_id'')) task"

text \<open>
  \<open>Array.prototype.findIndex\<close>: the index of the first element that satisfies the
  callback, \<open>-1\<close> when there is none.
\<close>

fun findIndex :: "('a \<Rightarrow> bool) \<Rightarrow> 'a list \<Rightarrow> int" where
  "findIndex P [] = - 1"
| "findIndex P (x # xs) =
     (if P x then 0
      else (let i = findIndex P xs in if i = - 1 then - 1 else i + 1))"

section \<open>The HTTP client\<close>

text \<open>
  The axios instance of \<open>services/api.js\<close>. Its response interceptor passes every failure
  on with \<open>Promise.reject(error)\<close>, after logging it by kind: a response with an error
  status, a request with no response, or an error while the request was set up.
\<close>

datatype http_error =
    BadStatus nat
  | NoResponse
  | SetupError string

text \<open>
  A request: the method, the literal part of the URL, the value interpolated into the
  template literal \<open>`/tasks/${id}`\<close> and the body.
\<close>

datatype request =
    Get string
  | Post string jsobj
  | Put string jsval jsobj
  | Delete string jsval

section \<open>The store\<close>

text \<open>
  The state of the store. \<open>error\<close> is \<open>null\<close> (\<open>None\<close>) or a message; \<open>filter\<close> holds
  whatever value \<open>setFilter\<close> was given.
\<close>

record store =
  tasks :: "jsobj list"
  loading :: bool
  error :: "string option"
  filter_st :: jsval

definition initial_store :: store where
  "initial_store = \<lparr>tasks = [], loading = False, error = None, filter_st = JStr ''all''\<rparr>"

subsection \<open>Getters\<close>

definition filteredTasks :: "store \<Rightarrow> jsobj list" where
  "filteredTasks state =
     (if strict_eq (filter_st state) (JStr ''active'')
      then filter (\<lambda>task. truthy (js_not (js_get task ''completed''))) (tasks state)
      else if strict_eq (filter_st state) (JStr ''completed'')
      then filter (\<lambda>task. truthy (js_get task ''completed'')) (tasks state)
      else tasks state)"

definition activeTasksCount :: "store \<Rightarrow> nat" where
  "activeTasksCount state =
     length (filter (\<lambda>task. truthy (js_not (js_get task ''completed''))) (tasks state))"

definition completedTasksCount :: "store \<Rightarrow> nat" where
  "completedTasksCount state =
     length (filter (\<lambda>task. truthy (js_get task ''completed'')) (tasks state))"

subsection \<open>Actions\<close>

text \<open>
  An action is an \<open>async\<close> function with one \<open>await\<close>, on the HTTP call. It is modelled in
  two halves: \<open>f_start\<close> runs the statements before the \<open>await\<close> and yields the request;
  \<open>f_resume\<close> runs the rest on the store as it is when the call settles, given how it
  settled (\<open>Inl\<close> a rejection, \<open>Inr\<close> the \<open>data\<close> of the response), and yields how the
  action's own promise settles (\<open>Inl\<close> rejected with the error, \<open>Inr\<close> fulfilled).
  \<open>f\<close> itself is the action run with nothing interleaved.
\<close>

type_synonym settled = "http_error + unit"

definition fetchTasks_start :: "store \<Rightarrow> store \<times> request" where
  "fetchTasks_start this = (this\<lparr>loading := True, error := None\<rparr>, Get ''/tasks/'')"

definition fetchTasks_resume :: "store \<Rightarrow> http_error + jsobj list \<Rightarrow> store \<times> settled" where
  "fetchTasks_resume this response =
     (case response of
        Inr data \<Rightarrow> (this\<lparr>tasks := map normalize_id data, loading := False\<rparr>, Inr ())
      | Inl e \<Rightarrow>
          (this\<lparr>error := Some ''Failed to load tasks. Please check if the backend is running.'',
                 loading := False\<rparr>, Inr ()))"

definition fetchTasks :: "store \<Rightarrow> http_error + jsobj list \<Rightarrow> store \<times> settled" where
  "fetchTasks this response = fetchTasks_resume (fst (fetchTasks_start this)) response"

definition createTask_start :: "store \<Rightarrow> jsobj \<Rightarrow> store \<times> request" where
  "createTask_start this taskData =
     (this\<lparr>loading := True, error := None\<rparr>, Post ''/tasks/'' taskData)"

definition createTask_resume :: "store \<Rightarrow> http_error + jsobj \<Rightarrow> store \<times> settled" where
  "createTask_resume this response =
     (case response of
        Inr data \<Rightarrow>
          (let newTask = normalize_id data
           in (this\<lparr>tasks := tasks this @ [newTask], loading := False\<rparr>, Inr ()))
      | Inl e \<Rightarrow>
          (this\<lparr>error := Some ''Failed to create task. Please try again.'',
                 loading := False\<rparr>, Inl e))"

definition createTask :: "store \<Rightarrow> jsobj \<Rightarrow> http_error + jsobj \<Rightarrow> store \<times> settled" where
  "createTask this taskData response =
     createTask_resume (fst (createTask_start this taskData)) response"

definition updateTask_start :: "store \<Rightarrow> jsval \<Rightarrow> jsobj \<Rightarrow> store \<times> request" where
  "updateTask_start this id' taskData =
     (let title = js_get taskData ''title'';
          description = js_get taskData ''description'';
          completed = js_get taskData ''completed'';
          payload = [(''title'', title), (''description'', description), (''completed'', completed)]
      in (this\<lparr>loading := True, error := None\<rparr>, Put ''/tasks/'' id' payload))"

definition updateTask_resume :: "store \<Rightarrow> jsval \<Rightarrow> http_error + jsobj \<Rightarrow> store \<times> settled" where
  "updateTask_resume this id' response =
     (case response of
        Inr data \<Rightarrow>
          (let index = findIndex (\<lambda>task. strict_eq (js_get task ''_id'') id' \<or>
                                          strict_eq (js_get task ''id'') id') (tasks this)
           in if index \<noteq> - 1
              then (this\<lparr>tasks := (tasks this)[nat index := normalize_id data],
                         loading := False\<rparr>, Inr ())
              else (this\<lparr>loading := False\<rparr>, Inr ()))
      | Inl e \<Rightarrow>
          (this\<lparr>error := Some ''Failed to update task. Please try again.'',
                 loading := False\<rparr>, Inl e))"

definition updateTask :: "store \<Rightarrow> jsval \<Rightarrow> jsobj \<Rightarrow> http_error + jsobj \<Rightarrow> store \<times> settled" where
  "updateTask this id' taskData response =
     updateTask_resume (fst (updateTask_start this id' taskData)) id' response"

text \<open>
  \<open>toggleTaskCompletion\<close> looks the task up with \<open>Array.prototype.find\<close> and returns at once
  when there is none (no request: \<open>None\<close>). Otherwise it awaits \<open>updateTask\<close> inside a
  \<open>try\<close> whose \<open>catch\<close> only logs.
\<close>

definition toggleTaskCompletion_start :: "store \<Rightarrow> jsval \<Rightarrow> store \<times> request option" where
  "toggleTaskCompletion_start this id' =
     (case find (\<lambda>t. strict_eq (js_get t ''_id'') id' \<or> strict_eq (js_get t ''id'') id') (tasks this) of
        None \<Rightarrow> (this, None)
      | Some task \<Rightarrow>
          (let (this', req) =
                 updateTask_start this id'
                   [(''title'', js_get task ''title''),
                    (''description'', js_get task ''description''),
                    (''completed'', js_not (js_get task ''completed''))]
           in (this', Some req)))"

definition toggleTaskCompletion_resume ::
    "store \<Rightarrow> jsval \<Rightarrow> http_error + jsobj \<Rightarrow> store \<times> settled" where
  "toggleTaskCompletion_resume this id' response =
     (case updateTask_resume this id' response of
        (this', Inr u) \<Rightarrow> (this', Inr ())
      | (this', Inl e) \<Rightarrow> (this', Inr ()))"

definition toggleTaskCompletion :: "store \<Rightarrow> jsval \<Rightarrow> http_error + jsobj \<Rightarrow> store \<times> settled" where
  "toggleTaskCompletion this id' response =
     (case toggleTaskCompletion_start this id' of
        (this', None) \<Rightarrow> (this', Inr ())
      | (this', Some req) \<Rightarrow> toggleTaskCompletion_resume this' id' response)"

text \<open>The response of the DELETE is not looked at.\<close>

definition deleteTask_start :: "store \<Rightarrow> jsval \<Rightarrow> store \<times> request" where
  "deleteTask_start this id' = (this\<lparr>loading := True, error := None\<rparr>, Delete ''/tasks/'' id')"

definition deleteTask_resume :: "store \<Rightarrow> jsval \<Rightarrow> http_error + unit \<Rightarrow> store \<times> settled" where
  "deleteTask_resume this id' response =
     (case response of
        Inr u \<Rightarrow>
          (this\<lparr>tasks := filter (\<lambda>task. \<not> strict_eq (js_get task ''_id'') id' \<and>
                                          \<not> strict_eq (js_get task ''id'') id') (tasks this),
                 loading := False\<rparr>, Inr ())
      | Inl e \<Rightarrow>
          (this\<lparr>error := Some ''Failed to delete task. Please try again.'',
                 loading := False\<rparr>, Inl e))"

definition deleteTask :: "store \<Rightarrow> jsval \<Rightarrow> http_error + unit \<Rightarrow> store \<times> settled" where
  "deleteTask this id' response = deleteTask_resume (fst (deleteTask_start this id')) id' response"

definition setFilter :: "store \<Rightarrow> jsval \<Rightarrow> store" where
  "setFilter this f = this\<lparr>filter_st := f\<rparr>"

subsection \<open>Example stores\<close>

text \<open>
  The store after the fetch and the create of the specification's scenarios, used below:
  task "1" (Buy milk) and task "2" (Write spec), neither completed.
\<close>

definition two_tasks :: store where
  "two_tasks =
     \<lparr>tasks = [[(''id'', JStr ''1''), (''title'', JStr ''Buy milk''), (''completed'', JBool False)],
               [(''id'', JStr ''2''), (''title'', JStr ''Write spec''), (''description'', JStr []),
                (''completed'', JBool False)]],
      loading = False, error = None, filter_st = JStr ''all''\<rparr>"

text \<open>
  A backend object that carries both identifiers, \<open>{ _id: "a", id: "b", title: "t" }\<close>,
  and one whose two identifiers are both falsy, \<open>{ id: 0, _id: "" }\<close>.
\<close>

definition both_ids :: jsobj where
  "both_ids = [(''_id'', JStr ''a''), (''id'', JStr ''b''), (''title'', JStr ''t'')]"

definition falsy_ids :: jsobj where
  "falsy_ids = [(''id'', JNum 0), (''_id'', JStr [])]"

section \<open>Auxiliary facts\<close>

lemma findIndex_lower: "- 1 \<le> findIndex P xs"
  by (induction xs) (simp_all add: Let_def)

lemma findIndex_none: "findIndex P xs = - 1 \<longleftrightarrow> (\<forall>x \<in> set xs. \<not> P x)"
proof (induction xs)
  case Nil
  show ?case by simp
next
  case (Cons x xs)
  have "- 1 \<le> findIndex P xs" by (rule findIndex_lower)
  with Cons show ?case by (auto simp: Let_def)
qed

lemma findIndex_first:
  assumes "\<exists>x \<in> set xs. P x"
  shows "0 \<le> findIndex P xs \<and> nat (findIndex P xs) < length xs \<and>
         P (xs ! nat (findIndex P xs)) \<and> (\<forall>j < nat (findIndex P xs). \<not> P (xs ! j))"
  using assms
proof (induction xs)
  case Nil
  then show ?case by simp
next
  case (Cons x xs)
  show ?case
  proof (cases "P x")
    case True
    then show ?thesis by simp
  next
    case False
    with Cons.prems have ex: "\<exists>y \<in> set xs. P y" by auto
    then have ne: "findIndex P xs \<noteq> - 1" by (simp add: findIndex_none)
    from Cons.IH [OF ex] have ih:
      "0 \<le> findIndex P xs" "nat (findIndex P xs) < length xs"
      "P (xs ! nat (findIndex P xs))" "\<forall>j < nat (findIndex P xs). \<not> P (xs ! j)"
      by simp_all
    have eq: "nat (findIndex P xs + 1) = Suc (nat (findIndex P xs))"
      using ih(1) by simp
    have "\<forall>j < Suc (nat (findIndex P xs)). \<not> P ((x # xs) ! j)"
    proof (intro allI impI)
      fix j assume "j < Suc (nat (findIndex P xs))"
      then show "\<not> P ((x # xs) ! j)"
        using False ih(4) by (cases j) simp_all
    qed
    with False ne ih eq show ?thesis by (simp add: Let_def)
  qed
qed

lemma count_split: "length (filter (\<lambda>x. \<not> Q x) xs) + length (filter Q xs) = length xs"
  by (induction xs) simp_all

lemma map_of_normalize_id:
  "map_of (normalize_id task) =
     (map_of task)(''id'' \<mapsto> js_or (js_get task ''id'') (js_get task ''_id''))"
  by (simp add: normalize_id_def AList.update_conv')

lemma js_get_normalize_id:
  "js_get (normalize_id task) k =
     (if k = ''id'' then js_or (js_get task ''id'') (js_get task ''_id'') else js_get task k)"
  by (simp add: js_get_def map_of_normalize_id)

lemma keys_normalize_id: "fst ` set (normalize_id task) = insert ''id'' (fst ` set task)"
  by (simp add: normalize_id_def AList.dom_update)

section \<open>Derived counters\<close>

text \<open>
  Claim C6. In every store, \<open>activeTasksCount + completedTasksCount\<close> is the length of
  \<open>tasks\<close>: the first getter counts the tasks whose \<open>completed\<close> is falsy, the second those
  whose \<open>completed\<close> is truthy. When every \<open>completed\<close> field is a boolean, as the data
  model has it, these are the tasks with \<open>completed\<close> false and those with \<open>completed\<close> true.
\<close>

theorem counts_partition_tasks:
  "activeTasksCount state + completedTasksCount state = length (tasks state) \<and>
   activeTasksCount state =
     length (filter (\<lambda>task. \<not> truthy (js_get task ''completed'')) (tasks state)) \<and>
   ((\<forall>task \<in> set (tasks state). \<exists>b. js_get task ''completed'' = JBool b) \<longrightarrow>
      activeTasksCount state =
        length (filter (\<lambda>task. js_get task ''completed'' = JBool False) (tasks state)) \<and>
      completedTasksCount state =
        length (filter (\<lambda>task. js_get task ''completed'' = JBool True) (tasks state)))"
proof -
  have a: "activeTasksCount state =
      length (filter (\<lambda>task. \<not> truthy (js_get task ''completed'')) (tasks state))"
    by (simp add: activeTasksCount_def js_not_def)
  have s: "activeTasksCount state + completedTasksCount state = length (tasks state)"
    unfolding a completedTasksCount_def by (rule count_split)
  have b: "activeTasksCount state =
        length (filter (\<lambda>task. js_get task ''completed'' = JBool False) (tasks state)) \<and>
      completedTasksCount state =
        length (filter (\<lambda>task. js_get task ''completed'' = JBool True) (tasks state))"
    if h: "\<forall>task \<in> set (tasks state). \<exists>b. js_get task ''completed'' = JBool b"
  proof -
    have "filter (\<lambda>task. \<not> truthy (js_get task ''completed'')) (tasks state) =
          filter (\<lambda>task. js_get task ''completed'' = JBool False) (tasks state)"
      by (rule filter_cong) (use h in auto)
    moreover have "filter (\<lambda>task. truthy (js_get task ''completed'')) (tasks state) =
          filter (\<lambda>task. js_get task ''completed'' = JBool True) (tasks state)"
      by (rule filter_cong) (use h in auto)
    ultimately show ?thesis by (simp add: a completedTasksCount_def)
  qed
  from s a b show ?thesis by blast
qed

theorem counts_partition_tasks_witness:
  "activeTasksCount \<lparr>tasks = [[(''id'', JStr ''1''), (''title'', JStr ''Buy milk''),
                                  (''completed'', JBool False)]],
                      loading = False, error = None, filter_st = JStr ''all''\<rparr> = 1 \<and>
   completedTasksCount \<lparr>tasks = [[(''id'', JStr ''1''), (''title'', JStr ''Buy milk''),
                                  (''completed'', JBool False)]],
                      loading = False, error = None, filter_st = JStr ''all''\<rparr> = 0"
  using counts_partition_tasks
    [of "\<lparr>tasks = [[(''id'', JStr ''1''), (''title'', JStr ''Buy milk''),
                      (''completed'', JBool False)]],
          loading = False, error = None, filter_st = JStr ''all''\<rparr>"]
  by (simp add: js_get_def)

section \<open>The filtered view\<close>

text \<open>
  Claim C7. \<open>setFilter\<close> stores its argument in \<open>filter\<close> as it is and changes nothing else.
  In every store \<open>filteredTasks\<close> is: under \<open>'active'\<close> the tasks whose \<open>completed\<close> is falsy,
  under \<open>'completed'\<close> the tasks whose \<open>completed\<close> is truthy (with boolean \<open>completed\<close>
  fields: the tasks with \<open>completed\<close> false, respectively true), under any other value the
  whole list; it is always a subsequence of \<open>tasks\<close>, in the order of \<open>tasks\<close>.
\<close>

theorem setFilter_filteredTasks:
  "filter_st (setFilter this f) = f \<and> tasks (setFilter this f) = tasks this \<and>
   loading (setFilter this f) = loading this \<and> error (setFilter this f) = error this \<and>
   (filter_st state = JStr ''active'' \<longrightarrow>
      filteredTasks state = filter (\<lambda>task. \<not> truthy (js_get task ''completed'')) (tasks state)) \<and>
   (filter_st state = JStr ''completed'' \<longrightarrow>
      filteredTasks state = filter (\<lambda>task. truthy (js_get task ''completed'')) (tasks state)) \<and>
   (filter_st state \<noteq> JStr ''active'' \<and> filter_st state \<noteq> JStr ''completed'' \<longrightarrow>
      filteredTasks state = tasks state) \<and>
   ((\<forall>task \<in> set (tasks state). \<exists>b. js_get task ''completed'' = JBool b) \<longrightarrow>
      (filter_st state = JStr ''active'' \<longrightarrow>
         filteredTasks state = filter (\<lambda>task. js_get task ''completed'' = JBool False) (tasks state)) \<and>
      (filter_st state = JStr ''completed'' \<longrightarrow>
         filteredTasks state = filter (\<lambda>task. js_get task ''completed'' = JBool True) (tasks state))) \<and>
   subseq (filteredTasks state) (tasks state)"
proof -
  have set: "filter_st (setFilter this f) = f \<and> tasks (setFilter this f) = tasks this \<and>
      loading (setFilter this f) = loading this \<and> error (setFilter this f) = error this"
    by (simp add: setFilter_def)
  have act: "filteredTasks state = filter (\<lambda>task. \<not> truthy (js_get task ''completed'')) (tasks state)"
    if "filter_st state = JStr ''active''"
    using that by (simp add: filteredTasks_def strict_eq_def js_not_def)
  have com: "filteredTasks state = filter (\<lambda>task. truthy (js_get task ''completed'')) (tasks state)"
    if "filter_st state = JStr ''completed''"
    using that by (simp add: filteredTasks_def strict_eq_def)
  have oth: "filteredTasks state = tasks state"
    if "filter_st state \<noteq> JStr ''active'' \<and> filter_st state \<noteq> JStr ''completed''"
    using that by (simp add: filteredTasks_def strict_eq_def)
  have sub: "subseq (filteredTasks state) (tasks state)"
    by (simp add: filteredTasks_def)
  have boo: "(filter_st state = JStr ''active'' \<longrightarrow>
         filteredTasks state = filter (\<lambda>task. js_get task ''completed'' = JBool False) (tasks state)) \<and>
      (filter_st state = JStr ''completed'' \<longrightarrow>
         filteredTasks state = filter (\<lambda>task. js_get task ''completed'' = JBool True) (tasks state))"
    if h: "\<forall>task \<in> set (tasks state). \<exists>b. js_get task ''completed'' = JBool b"
  proof -
    have "filter (\<lambda>task. \<not> truthy (js_get task ''completed'')) (tasks state) =
          filter (\<lambda>task. js_get task ''completed'' = JBool False) (tasks state)"
      by (rule filter_cong) (use h in auto)
    moreover have "filter (\<lambda>task. truthy (js_get task ''completed'')) (tasks state) =
          filter (\<lambda>task. js_get task ''completed'' = JBool True) (tasks state)"
      by (rule filter_cong) (use h in auto)
    ultimately show ?thesis using act com by simp
  qed
  from set act com oth boo sub show ?thesis by blast
qed

theorem setFilter_filteredTasks_witness:
  "filteredTasks (setFilter \<lparr>tasks = [[(''id'', JStr ''1''), (''completed'', JBool False)],
                                      [(''id'', JStr ''2''), (''completed'', JBool True)],
                                      [(''id'', JStr ''3''), (''completed'', JBool False)]],
                            loading = False, error = None, filter_st = JStr ''all''\<rparr>
                           (JStr ''active''))
     = [[(''id'', JStr ''1''), (''completed'', JBool False)],
        [(''id'', JStr ''3''), (''completed'', JBool False)]] \<and>
   filteredTasks (setFilter \<lparr>tasks = [[(''id'', JStr ''1''), (''completed'', JBool False)],
                                      [(''id'', JStr ''2''), (''completed'', JBool True)],
                                      [(''id'', JStr ''3''), (''completed'', JBool False)]],
                            loading = False, error = None, filter_st = JStr ''all''\<rparr>
                           (JStr ''completed''))
     = [[(''id'', JStr ''2''), (''completed'', JBool True)]] \<and>
   filteredTasks (setFilter \<lparr>tasks = [[(''id'', JStr ''1''), (''completed'', JBool False)],
                                      [(''id'', JStr ''2''), (''completed'', JBool True)],
                                      [(''id'', JStr ''3''), (''completed'', JBool False)]],
                            loading = False, error = None, filter_st = JStr ''all''\<rparr>
                           (JStr ''done''))
     = [[(''id'', JStr ''1''), (''completed'', JBool False)],
        [(''id'', JStr ''2''), (''completed'', JBool True)],
        [(''id'', JStr ''3''), (''completed'', JBool False)]]"
  using
    setFilter_filteredTasks
      [of _ _ "setFilter \<lparr>tasks = [[(''id'', JStr ''1''), (''completed'', JBool False)],
                                   [(''id'', JStr ''2''), (''completed'', JBool True)],
                                   [(''id'', JStr ''3''), (''completed'', JBool False)]],
                         loading = False, error = None, filter_st = JStr ''all''\<rparr>
                        (JStr ''active'')"]
    setFilter_filteredTasks
      [of _ _ "setFilter \<lparr>tasks = [[(''id'', JStr ''1''), (''completed'', JBool False)],
                                   [(''id'', JStr ''2''), (''completed'', JBool True)],
                                   [(''id'', JStr ''3''), (''completed'', JBool False)]],
                         loading = False, error = None, filter_st = JStr ''all''\<rparr>
                        (JStr ''completed'')"]
    setFilter_filteredTasks
      [of _ _ "setFilter \<lparr>tasks = [[(''id'', JStr ''1''), (''completed'', JBool False)],
                                   [(''id'', JStr ''2''), (''completed'', JBool True)],
                                   [(''id'', JStr ''3''), (''completed'', JBool False)]],
                         loading = False, error = None, filter_st = JStr ''all''\<rparr>
                        (JStr ''done'')"]
  by (simp add: setFilter_def js_get_def)

section \<open>Loading the tasks\<close>

text \<open>
  Claim C1. \<open>fetchTasks\<close> begins by setting \<open>loading\<close> to true and \<open>error\<close> to \<open>null\<close>, and
  issues the GET. When the GET succeeds with a sequence of task objects, \<open>tasks\<close> becomes
  that sequence with every entry id-normalized (so it has the length of the sequence),
  \<open>error\<close> is \<open>null\<close> and \<open>loading\<close> is false. When the GET fails, \<open>error\<close> is the fixed
  message, \<open>tasks\<close> is what it was, \<open>loading\<close> is false, and the action's promise is
  fulfilled all the same: the failure does not reach the caller.
\<close>

theorem fetchTasks_contract:
  "fetchTasks_start this = (this\<lparr>loading := True, error := None\<rparr>, Get ''/tasks/'') \<and>
   fetchTasks this (Inr data) =
     (this\<lparr>tasks := map normalize_id data, loading := False, error := None\<rparr>, Inr ()) \<and>
   length (tasks (fst (fetchTasks this (Inr data)))) = length data \<and>
   tasks (fst (fetchTasks_resume this (Inr data))) = map normalize_id data \<and>
   tasks (fst (fetchTasks this (Inr data))) =
     map (\<lambda>task. AList.update ''id''
                    (if truthy (js_get task ''id'') then js_get task ''id'' else js_get task ''_id'')
                    task) data \<and>
   map map_of (tasks (fst (fetchTasks this (Inr data)))) =
     map (\<lambda>task. (map_of task)
                    (''id'' \<mapsto>
                       (if truthy (js_get task ''id'') then js_get task ''id''
                        else js_get task ''_id''))) data \<and>
   map (\<lambda>task. js_get task ''id'') (tasks (fst (fetchTasks this (Inr data)))) =
     map (\<lambda>task. if truthy (js_get task ''id'') then js_get task ''id'' else js_get task ''_id'')
       data \<and>
   map (\<lambda>task. fst ` set task) (tasks (fst (fetchTasks this (Inr data)))) =
     map (\<lambda>task. insert ''id'' (fst ` set task)) data \<and>
   fetchTasks this (Inl e) =
     (this\<lparr>tasks := tasks this, loading := False,
           error := Some ''Failed to load tasks. Please check if the backend is running.''\<rparr>,
      Inr ()) \<and>
   tasks (fst (fetchTasks_resume this (Inl e))) = tasks this \<and>
   snd (fetchTasks_resume this (Inl e)) = Inr ()"
proof -
  have run: "fetchTasks this (Inr data) =
     (this\<lparr>tasks := map normalize_id data, loading := False, error := None\<rparr>, Inr ())"
    by (simp add: fetchTasks_def fetchTasks_start_def fetchTasks_resume_def)
  have res: "tasks (fst (fetchTasks_resume this (Inr data))) = map normalize_id data"
    by (simp add: fetchTasks_resume_def)
  have upd: "tasks (fst (fetchTasks this (Inr data))) =
     map (\<lambda>task. AList.update ''id''
                    (if truthy (js_get task ''id'') then js_get task ''id'' else js_get task ''_id'')
                    task) data"
    unfolding run by (simp add: normalize_id_def js_or_def)
  have mp: "map map_of (tasks (fst (fetchTasks this (Inr data)))) =
     map (\<lambda>task. (map_of task)
                    (''id'' \<mapsto>
                       (if truthy (js_get task ''id'') then js_get task ''id''
                        else js_get task ''_id''))) data"
    unfolding run by (simp add: map_of_normalize_id js_or_def)
  have ids: "map (\<lambda>task. js_get task ''id'') (tasks (fst (fetchTasks this (Inr data)))) =
     map (\<lambda>task. if truthy (js_get task ''id'') then js_get task ''id'' else js_get task ''_id'')
       data"
    unfolding run by (simp add: js_get_normalize_id js_or_def comp_def)
  have keys: "map (\<lambda>task. fst ` set task) (tasks (fst (fetchTasks this (Inr data)))) =
     map (\<lambda>task. insert ''id'' (fst ` set task)) data"
    unfolding run by (simp add: keys_normalize_id comp_def)
  have start: "fetchTasks_start this = (this\<lparr>loading := True, error := None\<rparr>, Get ''/tasks/'')"
    by (simp add: fetchTasks_start_def)
  have fail: "fetchTasks this (Inl e) =
     (this\<lparr>tasks := tasks this, loading := False,
           error := Some ''Failed to load tasks. Please check if the backend is running.''\<rparr>,
      Inr ()) \<and>
     tasks (fst (fetchTasks_resume this (Inl e))) = tasks this \<and>
     snd (fetchTasks_resume this (Inl e)) = Inr ()"
    by (simp add: fetchTasks_def fetchTasks_start_def fetchTasks_resume_def)
  have len: "length (tasks (fst (fetchTasks this (Inr data)))) = length data"
    unfolding run by simp
  from start run len res upd mp ids keys fail show ?thesis by blast
qed

theorem fetchTasks_contract_witness:
  "fetchTasks \<lparr>tasks = [[(''id'', JStr ''old'')]], loading = False, error = Some ''stale'',
               filter_st = JStr ''all''\<rparr>
     (Inr [[(''id'', JStr ''1''), (''title'', JStr ''Buy milk''), (''completed'', JBool False)],
           [(''_id'', JStr ''7''), (''title'', JStr ''Legacy''), (''completed'', JBool True)],
           [(''id'', JNum 0), (''_id'', JNum 12), (''title'', JStr ''Zero'')]])
   = (\<lparr>tasks =
         [[(''id'', JStr ''1''), (''title'', JStr ''Buy milk''), (''completed'', JBool False)],
          [(''_id'', JStr ''7''), (''title'', JStr ''Legacy''), (''completed'', JBool True),
           (''id'', JStr ''7'')],
          [(''id'', JNum 12), (''_id'', JNum 12), (''title'', JStr ''Zero'')]],
       loading = False, error = None, filter_st = JStr ''all''\<rparr>, Inr ()) \<and>
   fetchTasks two_tasks (Inl NoResponse)
   = (two_tasks\<lparr>error := Some ''Failed to load tasks. Please check if the backend is running.''\<rparr>,
      Inr ())"
proof -
  let ?s = "\<lparr>tasks = [[(''id'', JStr ''old'')]], loading = False, error = Some ''stale'',
             filter_st = JStr ''all''\<rparr>"
  let ?d = "[[(''id'', JStr ''1''), (''title'', JStr ''Buy milk''), (''completed'', JBool False)],
             [(''_id'', JStr ''7''), (''title'', JStr ''Legacy''), (''completed'', JBool True)],
             [(''id'', JNum 0), (''_id'', JNum 12), (''title'', JStr ''Zero'')]]"
  from fetchTasks_contract [of ?s ?d]
  have t: "tasks (fst (fetchTasks ?s (Inr ?d))) =
     map (\<lambda>task. AList.update ''id''
                    (if truthy (js_get task ''id'') then js_get task ''id'' else js_get task ''_id'')
                    task) ?d"
    and r: "fetchTasks ?s (Inr ?d) =
     (?s\<lparr>tasks := map normalize_id ?d, loading := False, error := None\<rparr>, Inr ())"
    by blast+
  from r have "fetchTasks ?s (Inr ?d) =
     (?s\<lparr>tasks := tasks (fst (fetchTasks ?s (Inr ?d))), loading := False, error := None\<rparr>, Inr ())"
    by simp
  then have ok: "fetchTasks ?s (Inr ?d) =
     (\<lparr>tasks =
         [[(''id'', JStr ''1''), (''title'', JStr ''Buy milk''), (''completed'', JBool False)],
          [(''_id'', JStr ''7''), (''title'', JStr ''Legacy''), (''completed'', JBool True),
           (''id'', JStr ''7'')],
          [(''id'', JNum 12), (''_id'', JNum 12), (''title'', JStr ''Zero'')]],
       loading = False, error = None, filter_st = JStr ''all''\<rparr>, Inr ())"
    unfolding t by (simp add: js_get_def)
  from fetchTasks_contract [of two_tasks _ NoResponse]
  have bad: "fetchTasks two_tasks (Inl NoResponse) =
     (two_tasks\<lparr>error := Some ''Failed to load tasks. Please check if the backend is running.''\<rparr>,
      Inr ())"
    by (simp add: two_tasks_def)
  from ok bad show ?thesis by simp
qed

section \<open>Creating a task\<close>

text \<open>
  Claim C2. \<open>createTask\<close> leaves \<open>tasks\<close> alone until the POST has settled. When the POST
  succeeds, the returned object, id-normalized, is appended at the end of \<open>tasks\<close> and the
  tasks before it are unchanged. When the POST fails, \<open>tasks\<close> is unchanged, \<open>error\<close> is the
  fixed create-failure message and the action's promise is rejected with the same error.
\<close>

theorem createTask_contract:
  "createTask_start this taskData =
     (this\<lparr>loading := True, error := None\<rparr>, Post ''/tasks/'' taskData) \<and>
   tasks (fst (createTask_start this taskData)) = tasks this \<and>
   createTask this taskData (Inr data) =
     (this\<lparr>tasks := tasks this @ [normalize_id data], loading := False, error := None\<rparr>,
      Inr ()) \<and>
   tasks (fst (createTask_resume this (Inr data))) = tasks this @ [normalize_id data] \<and>
   take (length (tasks this)) (tasks (fst (createTask this taskData (Inr data)))) = tasks this \<and>
   tasks (fst (createTask this taskData (Inr data))) =
     tasks this @
     [AList.update ''id''
        (if truthy (js_get data ''id'') then js_get data ''id'' else js_get data ''_id'') data] \<and>
   map_of (last (tasks (fst (createTask this taskData (Inr data))))) =
     (map_of data)
       (''id'' \<mapsto> (if truthy (js_get data ''id'') then js_get data ''id'' else js_get data ''_id'')) \<and>
   js_get (last (tasks (fst (createTask this taskData (Inr data))))) ''id'' =
     (if truthy (js_get data ''id'') then js_get data ''id'' else js_get data ''_id'') \<and>
   fst ` set (last (tasks (fst (createTask this taskData (Inr data))))) =
     insert ''id'' (fst ` set data) \<and>
   createTask this taskData (Inl e) =
     (this\<lparr>tasks := tasks this, loading := False,
           error := Some ''Failed to create task. Please try again.''\<rparr>, Inl e) \<and>
   tasks (fst (createTask_resume this (Inl e))) = tasks this \<and>
   snd (createTask_resume this (Inl e)) = Inl e"
proof -
  have run: "createTask this taskData (Inr data) =
     (this\<lparr>tasks := tasks this @ [normalize_id data], loading := False, error := None\<rparr>,
      Inr ())"
    by (simp add: createTask_def createTask_start_def createTask_resume_def)
  have start: "createTask_start this taskData =
     (this\<lparr>loading := True, error := None\<rparr>, Post ''/tasks/'' taskData) \<and>
     tasks (fst (createTask_start this taskData)) = tasks this"
    by (simp add: createTask_start_def)
  have res: "tasks (fst (createTask_resume this (Inr data))) = tasks this @ [normalize_id data]"
    by (simp add: createTask_resume_def)
  have pre: "take (length (tasks this)) (tasks (fst (createTask this taskData (Inr data)))) =
      tasks this"
    unfolding run by simp
  have upd: "tasks (fst (createTask this taskData (Inr data))) =
     tasks this @
     [AList.update ''id''
        (if truthy (js_get data ''id'') then js_get data ''id'' else js_get data ''_id'') data]"
    unfolding run by (simp add: normalize_id_def js_or_def)
  have mp: "map_of (last (tasks (fst (createTask this taskData (Inr data))))) =
     (map_of data)
       (''id'' \<mapsto> (if truthy (js_get data ''id'') then js_get data ''id'' else js_get data ''_id''))"
    unfolding run by (simp add: map_of_normalize_id js_or_def)
  have idv: "js_get (last (tasks (fst (createTask this taskData (Inr data))))) ''id'' =
     (if truthy (js_get data ''id'') then js_get data ''id'' else js_get data ''_id'')"
    unfolding run by (simp add: js_get_normalize_id js_or_def)
  have keys: "fst ` set (last (tasks (fst (createTask this taskData (Inr data))))) =
     insert ''id'' (fst ` set data)"
    unfolding run by (simp add: keys_normalize_id)
  have fail: "createTask this taskData (Inl e) =
     (this\<lparr>tasks := tasks this, loading := False,
           error := Some ''Failed to create task. Please try again.''\<rparr>, Inl e) \<and>
     tasks (fst (createTask_resume this (Inl e))) = tasks this \<and>
     snd (createTask_resume this (Inl e)) = Inl e"
    by (simp add: createTask_def createTask_start_def createTask_resume_def)
  from start run res pre upd mp idv keys fail show ?thesis by blast
qed

theorem createTask_contract_witness:
  "createTask two_tasks [(''title'', JStr ''Legacy'')]
     (Inr [(''_id'', JStr ''3''), (''title'', JStr ''Legacy''), (''description'', JStr []),
           (''completed'', JBool False)])
   = (\<lparr>tasks =
         [[(''id'', JStr ''1''), (''title'', JStr ''Buy milk''), (''completed'', JBool False)],
          [(''id'', JStr ''2''), (''title'', JStr ''Write spec''), (''description'', JStr []),
           (''completed'', JBool False)],
          [(''_id'', JStr ''3''), (''title'', JStr ''Legacy''), (''description'', JStr []),
           (''completed'', JBool False), (''id'', JStr ''3'')]],
       loading = False, error = None, filter_st = JStr ''all''\<rparr>, Inr ()) \<and>
   createTask two_tasks [(''title'', JStr ''Legacy'')] (Inl (BadStatus 500))
   = (two_tasks\<lparr>error := Some ''Failed to create task. Please try again.''\<rparr>,
      Inl (BadStatus 500))"
proof -
  let ?td = "[(''title'', JStr ''Legacy'')]"
  let ?d = "[(''_id'', JStr ''3''), (''title'', JStr ''Legacy''), (''description'', JStr []),
             (''completed'', JBool False)]"
  from createTask_contract [of two_tasks ?td ?d "BadStatus 500"]
  have t: "tasks (fst (createTask two_tasks ?td (Inr ?d))) =
     tasks two_tasks @
     [AList.update ''id''
        (if truthy (js_get ?d ''id'') then js_get ?d ''id'' else js_get ?d ''_id'') ?d]"
    and r: "createTask two_tasks ?td (Inr ?d) =
     (two_tasks\<lparr>tasks := tasks two_tasks @ [normalize_id ?d], loading := False, error := None\<rparr>,
      Inr ())"
    and bad: "createTask two_tasks ?td (Inl (BadStatus 500)) =
     (two_tasks\<lparr>tasks := tasks two_tasks, loading := False,
                 error := Some ''Failed to create task. Please try again.''\<rparr>, Inl (BadStatus 500))"
    by blast+
  from r have "createTask two_tasks ?td (Inr ?d) =
     (two_tasks\<lparr>tasks := tasks (fst (createTask two_tasks ?td (Inr ?d))), loading := False,
                 error := None\<rparr>, Inr ())"
    by simp
  then have ok: "createTask two_tasks ?td (Inr ?d) =
     (\<lparr>tasks =
         [[(''id'', JStr ''1''), (''title'', JStr ''Buy milk''), (''completed'', JBool False)],
          [(''id'', JStr ''2''), (''title'', JStr ''Write spec''), (''description'', JStr []),
           (''completed'', JBool False)],
          [(''_id'', JStr ''3''), (''title'', JStr ''Legacy''), (''description'', JStr []),
           (''completed'', JBool False), (''id'', JStr ''3'')]],
       loading = False, error = None, filter_st = JStr ''all''\<rparr>, Inr ())"
    unfolding t by (simp add: js_get_def two_tasks_def)
  from bad have bad': "createTask two_tasks ?td (Inl (BadStatus 500)) =
     (two_tasks\<lparr>error := Some ''Failed to create task. Please try again.''\<rparr>,
      Inl (BadStatus 500))"
    by (simp add: two_tasks_def)
  from ok bad' show ?thesis by simp
qed

section \<open>Updating a task\<close>



section \<open>Toggling completion\<close>

text \<open>
  Claim C4. When no task matches the id on \<open>_id\<close> or \<open>id\<close>, \<open>toggleTaskCompletion\<close> issues
  no request, leaves every field of the store as it is (\<open>error\<close> included) and its promise is
  fulfilled. When a task matches, the first such task's \<open>title\<close> and \<open>description\<close> and the
  negation of its \<open>completed\<close> are handed to \<open>updateTask\<close>, whose effect on the store is the
  effect of the toggle. Whether the delegated \<open>updateTask\<close> succeeds or fails, the promise of
  \<open>toggleTaskCompletion\<close> is fulfilled, whereas \<open>createTask\<close>, \<open>updateTask\<close> and
  \<open>deleteTask\<close> reject theirs on failure.
\<close>

theorem toggleTaskCompletion_contract:
  "((\<forall>t \<in> set (tasks this). \<not> (js_get t ''_id'' = id' \<or> js_get t ''id'' = id')) \<longrightarrow>
      toggleTaskCompletion_start this id' = (this, None) \<and>
      toggleTaskCompletion this id' response = (this, Inr ())) \<and>
   ((\<exists>t \<in> set (tasks this). js_get t ''_id'' = id' \<or> js_get t ''id'' = id') \<longrightarrow>
      (\<exists>i < length (tasks this).
         (js_get (tasks this ! i) ''_id'' = id' \<or> js_get (tasks this ! i) ''id'' = id') \<and>
         (\<forall>j < i. \<not> (js_get (tasks this ! j) ''_id'' = id' \<or> js_get (tasks this ! j) ''id'' = id')) \<and>
         toggleTaskCompletion_start this id' =
           (this\<lparr>loading := True, error := None\<rparr>,
            Some (Put ''/tasks/'' id'
                    [(''title'', js_get (tasks this ! i) ''title''),
                     (''description'', js_get (tasks this ! i) ''description''),
                     (''completed'', JBool (\<not> truthy (js_get (tasks this ! i) ''completed'')))])) \<and>
         toggleTaskCompletion this id' response =
           (fst (updateTask this id'
                   [(''title'', js_get (tasks this ! i) ''title''),
                    (''description'', js_get (tasks this ! i) ''description''),
                    (''completed'', JBool (\<not> truthy (js_get (tasks this ! i) ''completed'')))]
                   response),
            Inr ()))) \<and>
   snd (toggleTaskCompletion this id' response) = Inr () \<and>
   snd (toggleTaskCompletion_resume this id' (Inl e)) = Inr () \<and>
   snd (updateTask this id' taskData (Inl e)) = Inl e \<and>
   snd (createTask this taskData (Inl e)) = Inl e \<and>
   snd (deleteTask this id' (Inl e)) = Inl e"
proof -
  let ?m = "\<lambda>t. strict_eq (js_get t ''_id'') id' \<or> strict_eq (js_get t ''id'') id'"
  have res: "snd (toggleTaskCompletion_resume s id' r) = Inr ()" for s r
    by (simp add: toggleTaskCompletion_resume_def split: prod.splits sum.splits)
  have all: "snd (toggleTaskCompletion this id' response) = Inr ()"
    by (simp add: toggleTaskCompletion_def res split: prod.splits option.splits)
  have others: "snd (updateTask this id' taskData (Inl e)) = Inl e \<and>
      snd (createTask this taskData (Inl e)) = Inl e \<and>
      snd (deleteTask this id' (Inl e)) = Inl e"
    by (simp add: updateTask_def updateTask_resume_def createTask_def createTask_resume_def
        deleteTask_def deleteTask_resume_def)
  have miss: "toggleTaskCompletion_start this id' = (this, None) \<and>
      toggleTaskCompletion this id' response = (this, Inr ())"
    if "\<forall>t \<in> set (tasks this). \<not> (js_get t ''_id'' = id' \<or> js_get t ''id'' = id')"
  proof -
    from that have "find ?m (tasks this) = None"
      by (simp add: find_None_iff strict_eq_def)
    then show ?thesis
      by (simp add: toggleTaskCompletion_def toggleTaskCompletion_start_def)
  qed
  have hit: "\<exists>i < length (tasks this).
         (js_get (tasks this ! i) ''_id'' = id' \<or> js_get (tasks this ! i) ''id'' = id') \<and>
         (\<forall>j < i. \<not> (js_get (tasks this ! j) ''_id'' = id' \<or> js_get (tasks this ! j) ''id'' = id')) \<and>
         toggleTaskCompletion_start this id' =
           (this\<lparr>loading := True, error := None\<rparr>,
            Some (Put ''/tasks/'' id'
                    [(''title'', js_get (tasks this ! i) ''title''),
                     (''description'', js_get (tasks this ! i) ''description''),
                     (''completed'', JBool (\<not> truthy (js_get (tasks this ! i) ''completed'')))])) \<and>
         toggleTaskCompletion this id' response =
           (fst (updateTask this id'
                   [(''title'', js_get (tasks this ! i) ''title''),
                    (''description'', js_get (tasks this ! i) ''description''),
                    (''completed'', JBool (\<not> truthy (js_get (tasks this ! i) ''completed'')))]
                   response),
            Inr ())"
    if "\<exists>t \<in> set (tasks this). js_get t ''_id'' = id' \<or> js_get t ''id'' = id'"
  proof -
    from that have "\<exists>t \<in> set (tasks this). ?m t"
      by (simp add: strict_eq_def)
    then have "find ?m (tasks this) \<noteq> None"
      by (auto simp: find_None_iff)
    then obtain task where fd: "find ?m (tasks this) = Some task"
      by blast
    then obtain i where i: "i < length (tasks this)" "?m (tasks this ! i)"
        "task = tasks this ! i" "\<forall>j < i. \<not> ?m (tasks this ! j)"
      unfolding find_Some_iff by blast
    have st: "toggleTaskCompletion_start this id' =
           (this\<lparr>loading := True, error := None\<rparr>,
            Some (Put ''/tasks/'' id'
                    [(''title'', js_get task ''title''),
                     (''description'', js_get task ''description''),
                     (''completed'', JBool (\<not> truthy (js_get task ''completed'')))]))"
      using fd by (simp add: toggleTaskCompletion_start_def updateTask_start_def js_not_def js_get_def)
    have run: "toggleTaskCompletion this id' response =
           (fst (updateTask this id'
                   [(''title'', js_get task ''title''),
                    (''description'', js_get task ''description''),
                    (''completed'', JBool (\<not> truthy (js_get task ''completed'')))]
                   response),
            Inr ())"
      using fd
      by (simp add: toggleTaskCompletion_def toggleTaskCompletion_start_def
          toggleTaskCompletion_resume_def updateTask_def updateTask_start_def
          split: prod.splits sum.splits)
    from i st run show ?thesis
      unfolding strict_eq_def by blast
  qed
  from miss hit all res others show ?thesis by blast
qed

theorem toggleTaskCompletion_contract_witness:
  "toggleTaskCompletion two_tasks (JStr ''9'') (Inl NoResponse) = (two_tasks, Inr ()) \<and>
   toggleTaskCompletion_start two_tasks (JStr ''1'') =
     (two_tasks\<lparr>loading := True, error := None\<rparr>,
      Some (Put ''/tasks/'' (JStr ''1'')
              [(''title'', JStr ''Buy milk''), (''description'', JUndefined),
               (''completed'', JBool True)])) \<and>
   toggleTaskCompletion two_tasks (JStr ''1'') (Inl NoResponse) =
     (two_tasks\<lparr>error := Some ''Failed to update task. Please try again.''\<rparr>, Inr ())"
proof -
  have "\<forall>t \<in> set (tasks two_tasks). \<not> (js_get t ''_id'' = JStr ''9'' \<or> js_get t ''id'' = JStr ''9'')"
    by (simp add: two_tasks_def js_get_def)
  with toggleTaskCompletion_contract [of two_tasks "JStr ''9''" "Inl NoResponse"]
  have miss: "toggleTaskCompletion two_tasks (JStr ''9'') (Inl NoResponse) = (two_tasks, Inr ())"
    by blast
  have "\<exists>t \<in> set (tasks two_tasks). js_get t ''_id'' = JStr ''1'' \<or> js_get t ''id'' = JStr ''1''"
    by (simp add: two_tasks_def js_get_def)
  with toggleTaskCompletion_contract [of two_tasks "JStr ''1''" "Inl NoResponse"]
  obtain i where i: "i < length (tasks two_tasks)"
      "js_get (tasks two_tasks ! i) ''_id'' = JStr ''1'' \<or> js_get (tasks two_tasks ! i) ''id'' = JStr ''1''"
      "toggleTaskCompletion_start two_tasks (JStr ''1'') =
           (two_tasks\<lparr>loading := True, error := None\<rparr>,
            Some (Put ''/tasks/'' (JStr ''1'')
                    [(''title'', js_get (tasks two_tasks ! i) ''title''),
                     (''description'', js_get (tasks two_tasks ! i) ''description''),
                     (''completed'', JBool (\<not> truthy (js_get (tasks two_tasks ! i) ''completed'')))]))"
      "toggleTaskCompletion two_tasks (JStr ''1'') (Inl NoResponse) =
           (fst (updateTask two_tasks (JStr ''1'')
                   [(''title'', js_get (tasks two_tasks ! i) ''title''),
                    (''description'', js_get (tasks two_tasks ! i) ''description''),
                    (''completed'', JBool (\<not> truthy (js_get (tasks two_tasks ! i) ''completed'')))]
                   (Inl NoResponse)),
            Inr ())"
    by blast
  from i(1) have "i = 0 \<or> i = 1"
    by (auto simp: two_tasks_def)
  with i(2) have i0: "i = 0"
    by (auto simp: two_tasks_def js_get_def)
  have t0: "tasks two_tasks ! 0 =
      [(''id'', JStr ''1''), (''title'', JStr ''Buy milk''), (''completed'', JBool False)]"
    by (simp add: two_tasks_def)
  from i(3) have st: "toggleTaskCompletion_start two_tasks (JStr ''1'') =
     (two_tasks\<lparr>loading := True, error := None\<rparr>,
      Some (Put ''/tasks/'' (JStr ''1'')
              [(''title'', JStr ''Buy milk''), (''description'', JUndefined),
               (''completed'', JBool True)]))"
    unfolding i0 t0 by (simp add: js_get_def)
  from i(4) have run: "toggleTaskCompletion two_tasks (JStr ''1'') (Inl NoResponse) =
     (two_tasks\<lparr>error := Some ''Failed to update task. Please try again.''\<rparr>, Inr ())"
    unfolding i0 t0
    by (simp add: js_get_def updateTask_def updateTask_start_def updateTask_resume_def two_tasks_def)
  from miss st run show ?thesis by simp
qed

section \<open>Deleting a task\<close>

text \<open>
  Claim C5. \<open>deleteTask\<close> leaves \<open>tasks\<close> alone until the DELETE has settled. On success
  \<open>tasks\<close> keeps, in their order, exactly the tasks that match the id neither on \<open>_id\<close> nor
  on \<open>id\<close>: every match is removed, and afterwards no task has that id. On failure \<open>error\<close>
  is the fixed delete-failure message, \<open>tasks\<close> is unchanged and the promise is rejected with
  the same error.
\<close>

theorem deleteTask_contract:
  "deleteTask_start this id' = (this\<lparr>loading := True, error := None\<rparr>, Delete ''/tasks/'' id') \<and>
   tasks (fst (deleteTask_start this id')) = tasks this \<and>
   deleteTask this id' (Inr ()) =
     (this\<lparr>tasks := filter (\<lambda>task. js_get task ''_id'' \<noteq> id' \<and> js_get task ''id'' \<noteq> id')
                         (tasks this),
           loading := False, error := None\<rparr>, Inr ()) \<and>
   set (tasks (fst (deleteTask this id' (Inr ())))) =
     {task \<in> set (tasks this). js_get task ''_id'' \<noteq> id' \<and> js_get task ''id'' \<noteq> id'} \<and>
   subseq (tasks (fst (deleteTask this id' (Inr ())))) (tasks this) \<and>
   (\<forall>task \<in> set (tasks (fst (deleteTask this id' (Inr ())))).
      js_get task ''id'' \<noteq> id' \<and> js_get task ''_id'' \<noteq> id') \<and>
   deleteTask this id' (Inl e) =
     (this\<lparr>tasks := tasks this, loading := False,
           error := Some ''Failed to delete task. Please try again.''\<rparr>, Inl e) \<and>
   tasks (fst (deleteTask_resume this id' (Inl e))) = tasks this"
proof -
  have ok: "deleteTask this id' (Inr ()) =
     (this\<lparr>tasks := filter (\<lambda>task. js_get task ''_id'' \<noteq> id' \<and> js_get task ''id'' \<noteq> id')
                         (tasks this),
           loading := False, error := None\<rparr>, Inr ())"
    by (simp add: deleteTask_def deleteTask_start_def deleteTask_resume_def strict_eq_def)
  have set: "set (tasks (fst (deleteTask this id' (Inr ())))) =
     {task \<in> set (tasks this). js_get task ''_id'' \<noteq> id' \<and> js_get task ''id'' \<noteq> id'}"
    unfolding ok by auto
  have sub: "subseq (tasks (fst (deleteTask this id' (Inr ())))) (tasks this)"
    unfolding ok by simp
  have none: "\<forall>task \<in> set (tasks (fst (deleteTask this id' (Inr ())))).
      js_get task ''id'' \<noteq> id' \<and> js_get task ''_id'' \<noteq> id'"
    unfolding set by simp
  have rest: "deleteTask_start this id' = (this\<lparr>loading := True, error := None\<rparr>, Delete ''/tasks/'' id') \<and>
      tasks (fst (deleteTask_start this id')) = tasks this \<and>
      deleteTask this id' (Inl e) =
        (this\<lparr>tasks := tasks this, loading := False,
              error := Some ''Failed to delete task. Please try again.''\<rparr>, Inl e) \<and>
      tasks (fst (deleteTask_resume this id' (Inl e))) = tasks this"
    by (simp add: deleteTask_def deleteTask_start_def deleteTask_resume_def)
  from ok set sub none rest show ?thesis by blast
qed

theorem deleteTask_contract_witness:
  "tasks (fst (deleteTask two_tasks (JStr ''1'') (Inr ()))) =
     [[(''id'', JStr ''2''), (''title'', JStr ''Write spec''), (''description'', JStr []),
       (''completed'', JBool False)]] \<and>
   js_get (hd (tasks (fst (deleteTask two_tasks (JStr ''1'') (Inr ()))))) ''id'' \<noteq> JStr ''1''"
  using deleteTask_contract [of two_tasks "JStr ''1''"]
  by (simp add: two_tasks_def js_get_def)

section \<open>The loading flag\<close>

text \<open>
  Claim C9. After \<open>fetchTasks\<close>, \<open>createTask\<close>, \<open>updateTask\<close> and \<open>deleteTask\<close>, \<open>loading\<close> is
  false, however the HTTP call settled and whatever the store held when it settled.
\<close>

theorem loading_reset:
  "loading (fst (fetchTasks_resume this r1)) = False \<and>
   loading (fst (createTask_resume this r2)) = False \<and>
   loading (fst (updateTask_resume this id' r3)) = False \<and>
   loading (fst (deleteTask_resume this id' r4)) = False \<and>
   loading (fst (fetchTasks this r1)) = False \<and>
   loading (fst (createTask this taskData r2)) = False \<and>
   loading (fst (updateTask this id' taskData r3)) = False \<and>
   loading (fst (deleteTask this id' r4)) = False"
proof -
  have f: "loading (fst (fetchTasks_resume s r1)) = False" for s
    by (cases r1) (simp_all add: fetchTasks_resume_def)
  have c: "loading (fst (createTask_resume s r2)) = False" for s
    by (cases r2) (simp_all add: createTask_resume_def)
  have u: "loading (fst (updateTask_resume s id' r3)) = False" for s
    by (cases r3) (simp_all add: updateTask_resume_def Let_def)
  have d: "loading (fst (deleteTask_resume s id' r4)) = False" for s
    by (cases r4) (simp_all add: deleteTask_resume_def)
  show ?thesis
    unfolding fetchTasks_def createTask_def updateTask_def deleteTask_def
    using f c u d by blast
qed

section \<open>Id normalization\<close>

text \<open>
  Claim C10, as stated, fails: the response object \<open>{ id: 0, _id: "" }\<close> has both
  identifiers falsy, and the task that \<open>fetchTasks\<close> stores for it has the id \<open>""\<close>, not
  \<open>undefined\<close>.
\<close>

theorem falsy_ids_not_undefined:
  "\<not> truthy (js_get falsy_ids ''id'') \<and> \<not> truthy (js_get falsy_ids ''_id'') \<and>
   js_get (hd (tasks (fst (fetchTasks initial_store (Inr [falsy_ids]))))) ''id'' = JStr [] \<and>
   js_get (hd (tasks (fst (fetchTasks initial_store (Inr [falsy_ids]))))) ''id'' \<noteq> JUndefined \<and>
   js_get (last (tasks (fst (createTask initial_store [] (Inr falsy_ids))))) ''id'' \<noteq> JUndefined"
  by (simp add: falsy_ids_def initial_store_def fetchTasks_def fetchTasks_start_def
      fetchTasks_resume_def createTask_def createTask_start_def createTask_resume_def
      normalize_id_def js_or_def js_get_def)

text \<open>
  Claim C10, amended. The id stored by \<open>fetchTasks\<close> and \<open>createTask\<close> is
  \<open>task.id || task._id\<close> by truthiness. A truthy \<open>id\<close> is kept. When \<open>id\<close> is falsy or
  absent the stored id is the value of \<open>_id\<close>, whatever it is: \<open>_id\<close> itself when present
  (a falsy backend id such as \<open>0\<close> or \<open>""\<close> is lost), and \<open>undefined\<close> when \<open>_id\<close> is absent.
\<close>

theorem normalize_id_truthiness:
  "map (\<lambda>task. js_get task ''id'') (tasks (fst (fetchTasks this (Inr data)))) =
     map (\<lambda>task. js_or (js_get task ''id'') (js_get task ''_id'')) data \<and>
   js_get (last (tasks (fst (createTask this taskData (Inr task))))) ''id'' =
     js_or (js_get task ''id'') (js_get task ''_id'') \<and>
   (truthy (js_get task ''id'') \<longrightarrow>
      js_get (normalize_id task) ''id'' = js_get task ''id'') \<and>
   (\<not> truthy (js_get task ''id'') \<longrightarrow>
      js_get (normalize_id task) ''id'' = js_get task ''_id'') \<and>
   (\<not> truthy (js_get task ''id'') \<and> map_of task ''_id'' = Some v \<longrightarrow>
      js_get (normalize_id task) ''id'' = v) \<and>
   (\<not> truthy (js_get task ''id'') \<and> map_of task ''_id'' = None \<longrightarrow>
      js_get (normalize_id task) ''id'' = JUndefined)"
proof -
  have f: "map (\<lambda>task. js_get task ''id'') (tasks (fst (fetchTasks this (Inr data)))) =
     map (\<lambda>task. js_or (js_get task ''id'') (js_get task ''_id'')) data"
    by (simp add: fetchTasks_def fetchTasks_start_def fetchTasks_resume_def js_get_normalize_id
        comp_def)
  have c: "js_get (last (tasks (fst (createTask this taskData (Inr task))))) ''id'' =
     js_or (js_get task ''id'') (js_get task ''_id'')"
    by (simp add: createTask_def createTask_start_def createTask_resume_def js_get_normalize_id)
  have t: "js_get (normalize_id task) ''id'' = js_get task ''id''" if "truthy (js_get task ''id'')"
    using that by (simp add: js_get_normalize_id js_or_def)
  have n: "js_get (normalize_id task) ''id'' = js_get task ''_id''"
    if "\<not> truthy (js_get task ''id'')"
    using that by (simp add: js_get_normalize_id js_or_def)
  have p: "js_get (normalize_id task) ''id'' = v"
    if "\<not> truthy (js_get task ''id'') \<and> map_of task ''_id'' = Some v"
    using that n by (simp add: js_get_def)
  have a: "js_get (normalize_id task) ''id'' = JUndefined"
    if "\<not> truthy (js_get task ''id'') \<and> map_of task ''_id'' = None"
    using that n by (simp add: js_get_def)
  from f c t n p a show ?thesis by blast
qed

theorem normalize_id_truthiness_witness:
  "js_get (normalize_id [(''id'', JStr ''7''), (''_id'', JStr ''x'')]) ''id'' = JStr ''7'' \<and>
   js_get (normalize_id [(''id'', JNum 0), (''_id'', JStr ''x'')]) ''id'' = JStr ''x'' \<and>
   js_get (normalize_id [(''id'', JStr []), (''title'', JStr ''t'')]) ''id'' = JUndefined \<and>
   js_get (normalize_id falsy_ids) ''id'' = JStr []"
  using
    normalize_id_truthiness [of _ _ _ "[(''id'', JStr ''7''), (''_id'', JStr ''x'')]"]
    normalize_id_truthiness [of _ _ _ "[(''id'', JNum 0), (''_id'', JStr ''x'')]" "JStr ''x''"]
    normalize_id_truthiness [of _ _ _ "[(''id'', JStr []), (''title'', JStr ''t'')]"]
    normalize_id_truthiness [of _ _ _ falsy_ids "JStr []"]
  by (simp add: js_get_def falsy_ids_def)

section \<open>The legacy identifier\<close>

text \<open>
  Claim C8, as stated, fails. For the response object \<open>{ _id: "a", id: "b", title: "t" }\<close>
  the task stored by \<open>fetchTasks\<close> still carries \<open>_id\<close>, next to its canonical id \<open>"b"\<close>;
  and \<open>_id\<close> is compared afterwards: \<open>deleteTask("a")\<close> removes that task,
  \<open>toggleTaskCompletion("a")\<close> finds it and issues its PUT, and \<open>updateTask("a", ...)\<close>
  replaces it.
\<close>

theorem legacy_id_kept_and_compared:
  "map_of (hd (tasks (fst (fetchTasks initial_store (Inr [both_ids]))))) ''_id'' = Some (JStr ''a'') \<and>
   js_get (hd (tasks (fst (fetchTasks initial_store (Inr [both_ids]))))) ''id'' = JStr ''b'' \<and>
   tasks (fst (deleteTask (fst (fetchTasks initial_store (Inr [both_ids]))) (JStr ''a'') (Inr ()))) = [] \<and>
   snd (toggleTaskCompletion_start (fst (fetchTasks initial_store (Inr [both_ids]))) (JStr ''a'')) =
     Some (Put ''/tasks/'' (JStr ''a'')
             [(''title'', JStr ''t''), (''description'', JUndefined), (''completed'', JBool True)]) \<and>
   tasks (fst (updateTask (fst (fetchTasks initial_store (Inr [both_ids]))) (JStr ''a'') []
                 (Inr [(''id'', JStr ''c'')]))) = [[(''id'', JStr ''c'')]]"
  by (simp add: both_ids_def initial_store_def fetchTasks_def fetchTasks_start_def
      fetchTasks_resume_def deleteTask_def deleteTask_start_def deleteTask_resume_def
      toggleTaskCompletion_start_def updateTask_def updateTask_start_def updateTask_resume_def
      normalize_id_def js_or_def js_not_def js_get_def strict_eq_def)

text \<open>
  Claim C8, amended. Every task object that \<open>fetchTasks\<close>, \<open>createTask\<close> or \<open>updateTask\<close>
  stores is an id-normalized response object: it has an \<open>id\<close> property, with the value
  \<open>id || _id\<close>, and its \<open>_id\<close> property is the one of the response object, kept as it was.
  The lookups compare both properties: a task of the store whose \<open>_id\<close> or whose \<open>id\<close> is
  the requested id is removed by \<open>deleteTask\<close> and found by \<open>toggleTaskCompletion\<close>, and
  \<open>updateTask\<close> then stores the normalized response.
\<close>

theorem stored_tasks_normalized:
  "''id'' \<in> fst ` set (normalize_id task) \<and>
   map_of (normalize_id task) ''_id'' = map_of task ''_id'' \<and>
   js_get (normalize_id task) ''id'' =
     (if truthy (js_get task ''id'') then js_get task ''id'' else js_get task ''_id'') \<and>
   tasks (fst (fetchTasks this (Inr data))) = map normalize_id data \<and>
   tasks (fst (createTask this taskData (Inr task))) = tasks this @ [normalize_id task] \<and>
   set (tasks (fst (updateTask this id' taskData (Inr task)))) \<subseteq>
     insert (normalize_id task) (set (tasks this)) \<and>
   (\<forall>t \<in> set (tasks (fst (fetchTasks this (Inr data)))). ''id'' \<in> fst ` set t) \<and>
   (t \<in> set (tasks this) \<and> (js_get t ''_id'' = id' \<or> js_get t ''id'' = id') \<longrightarrow>
      t \<notin> set (tasks (fst (deleteTask this id' (Inr ())))) \<and>
      normalize_id task \<in> set (tasks (fst (updateTask this id' taskData (Inr task)))) \<and>
      snd (toggleTaskCompletion_start this id') \<noteq> None)"
proof -
  let ?m = "\<lambda>task. strict_eq (js_get task ''_id'') id' \<or> strict_eq (js_get task ''id'') id'"
  have k: "''id'' \<in> fst ` set (normalize_id x)" for x
    by (simp add: keys_normalize_id)
  have l: "map_of (normalize_id task) ''_id'' = map_of task ''_id''"
    by (simp add: map_of_normalize_id)
  have v: "js_get (normalize_id task) ''id'' =
     (if truthy (js_get task ''id'') then js_get task ''id'' else js_get task ''_id'')"
    by (simp add: js_get_normalize_id js_or_def)
  have f: "tasks (fst (fetchTasks this (Inr data))) = map normalize_id data"
    by (simp add: fetchTasks_def fetchTasks_start_def fetchTasks_resume_def)
  have c: "tasks (fst (createTask this taskData (Inr task))) = tasks this @ [normalize_id task]"
    by (simp add: createTask_def createTask_start_def createTask_resume_def)
  have u: "set (tasks (fst (updateTask this id' taskData (Inr task)))) \<subseteq>
     insert (normalize_id task) (set (tasks this))"
    by (auto simp: updateTask_def updateTask_start_def updateTask_resume_def Let_def
        dest: set_update_subset_insert [THEN subsetD])
  have fk: "\<forall>t \<in> set (tasks (fst (fetchTasks this (Inr data)))). ''id'' \<in> fst ` set t"
    unfolding f using k by auto
  have look: "t \<notin> set (tasks (fst (deleteTask this id' (Inr ())))) \<and>
      normalize_id task \<in> set (tasks (fst (updateTask this id' taskData (Inr task)))) \<and>
      snd (toggleTaskCompletion_start this id') \<noteq> None"
    if h: "t \<in> set (tasks this) \<and> (js_get t ''_id'' = id' \<or> js_get t ''id'' = id')"
  proof -
    from h have ex: "\<exists>x \<in> set (tasks this). ?m x"
      by (auto simp: strict_eq_def)
    have d: "t \<notin> set (tasks (fst (deleteTask this id' (Inr ()))))"
      using h by (auto simp: deleteTask_def deleteTask_start_def deleteTask_resume_def strict_eq_def)
    from findIndex_first [OF ex] have i:
      "0 \<le> findIndex ?m (tasks this)" "nat (findIndex ?m (tasks this)) < length (tasks this)"
      by blast+
    from i(1) have ne: "findIndex ?m (tasks this) \<noteq> - 1" by simp
    have up: "normalize_id task \<in> set (tasks (fst (updateTask this id' taskData (Inr task))))"
      using ne i(2)
      by (simp add: updateTask_def updateTask_start_def updateTask_resume_def set_update_memI)
    from ex have "find ?m (tasks this) \<noteq> None"
      by (auto simp: find_None_iff)
    then have tg: "snd (toggleTaskCompletion_start this id') \<noteq> None"
      by (auto simp: toggleTaskCompletion_start_def split: prod.splits)
    from d up tg show ?thesis by blast
  qed
  from k l v f c u fk look show ?thesis by blast
qed

theorem stored_tasks_normalized_witness:
  "tasks (fst (fetchTasks initial_store (Inr [both_ids]))) = [normalize_id both_ids] \<and>
   map_of (normalize_id both_ids) ''_id'' = Some (JStr ''a'') \<and>
   normalize_id both_ids
     \<notin> set (tasks (fst (deleteTask \<lparr>tasks = [normalize_id both_ids], loading = False, error = None,
                                     filter_st = JStr ''all''\<rparr> (JStr ''a'') (Inr ())))) \<and>
   snd (toggleTaskCompletion_start \<lparr>tasks = [normalize_id both_ids], loading = False, error = None,
                                   filter_st = JStr ''all''\<rparr> (JStr ''a'')) \<noteq> None"
proof -
  let ?s = "\<lparr>tasks = [normalize_id both_ids], loading = False, error = None,
             filter_st = JStr ''all''\<rparr>"
  have g: "js_get (normalize_id both_ids) ''_id'' = JStr ''a''"
    by (simp add: js_get_normalize_id) (simp add: js_get_def both_ids_def)
  have h: "normalize_id both_ids \<in> set (tasks ?s) \<and>
      js_get (normalize_id both_ids) ''_id'' = JStr ''a''"
    using g by simp
  from stored_tasks_normalized [of both_ids initial_store "[both_ids]"]
  have a: "tasks (fst (fetchTasks initial_store (Inr [both_ids]))) = [normalize_id both_ids]"
      "map_of (normalize_id both_ids) ''_id'' = map_of both_ids ''_id''"
    by simp_all
  from stored_tasks_normalized [of _ ?s _ _ "JStr ''a''" "normalize_id both_ids"] h
  have b: "normalize_id both_ids \<notin> set (tasks (fst (deleteTask ?s (JStr ''a'') (Inr ()))))"
      "snd (toggleTaskCompletion_start ?s (JStr ''a'')) \<noteq> None"
    by blast+
  from a b show ?thesis by (simp add: both_ids_def)
qed

end
